theory Spec2Isabelle
  imports Complex_Main "HOL-Library.Word"
begin

section \<open>Data model of the singularity detector\<close>

text \<open>
  The limit tables and the joint position hold C++ \<open>double\<close>s, and the classifier only
  ever compares them with \<open><\<close> and \<open>>\<close>. A double is modelled by its value: a finite
  real (both zeros are \<open>Fin 0\<close>, they compare equal), an infinity, or a NaN. Every
  ordered comparison with a NaN is false.
\<close>

datatype dbl = NaN | MInf | Fin real | PInf

fun dlt :: "dbl \<Rightarrow> dbl \<Rightarrow> bool" where
  "dlt NaN b = False"
| "dlt a NaN = False"
| "dlt MInf MInf = False"
| "dlt MInf b = True"
| "dlt (Fin x) (Fin y) = (x < y)"
| "dlt (Fin x) PInf = True"
| "dlt (Fin x) MInf = False"
| "dlt PInf b = False"

definition dgt :: "dbl \<Rightarrow> dbl \<Rightarrow> bool" where
  "dgt a b = dlt b a"

text \<open>
  \<open>a \<le> b\<close> on doubles; the program never evaluates it, it is used to state how the
  operator ordered the configured limits.
\<close>

definition dle :: "dbl \<Rightarrow> dbl \<Rightarrow> bool" where
  "dle a b = (a \<noteq> NaN \<and> b \<noteq> NaN \<and> \<not> dlt b a)"

text \<open>
  \<open>v[i]\<close> on a \<open>std::vector\<close> or an \<open>Eigen::VectorXd\<close>: reading past the end is
  undefined behaviour, the value \<open>None\<close> of the model.
\<close>

definition elem :: "'a list \<Rightarrow> nat \<Rightarrow> 'a option" where
  "elem v i = (if i < length v then Some (v ! i) else None)"

text \<open>
  The value an \<open>RTT::InputPort::read\<close> returns, and what the error log receives from
  \<open>checkAllLimitsSize\<close>: which table (\<open>lower\<close> or \<open>upper\<close>), the index \<open>i\<close> printed in
  front, the size found and the size expected.
\<close>

datatype flow_status = NoData | OldData | NewData

datatype side = Lower | Upper

datatype diagnostic = WrongSize side nat nat int

text \<open>
  The members of the class. \<open>number_of_joints\<close> is an \<open>int\<close> (32 bits, read with
  \<open>sint\<close>), \<open>singularity_scaling\<close> a \<open>std_msgs::UInt8\<close>. The output port is the list of
  the messages written to it, oldest first.
\<close>

record detector =
  l1_lower :: "dbl list"
  l1_upper :: "dbl list"
  l2_lower :: "dbl list"
  l2_upper :: "dbl list"
  l3_lower :: "dbl list"
  l3_upper :: "dbl list"
  number_of_joints :: "32 word"
  singularity_scaling :: "8 word"
  joint_position :: "dbl list"
  port_singularity_scaling :: "8 word list"

section \<open>checkSingularityLevel\<close>

text \<open>
  One band test of the loop body,
  \<open>joint_position[i] < upper[i] && joint_position[i] > lower[i]\<close>: the reads happen
  from left to right and \<open>&&\<close> skips its right operand when the left one is false.
\<close>

definition inside :: "dbl list \<Rightarrow> dbl list \<Rightarrow> dbl list \<Rightarrow> nat \<Rightarrow> bool option" where
  "inside pos lower upper i =
     (case elem pos i of None \<Rightarrow> None
      | Some p \<Rightarrow>
         (case elem upper i of None \<Rightarrow> None
          | Some u \<Rightarrow>
             if dlt p u
             then (case elem lower i of None \<Rightarrow> None | Some l \<Rightarrow> Some (dgt p l))
             else Some False))"

text \<open>
  The if/else-if chain of one iteration: either the loop is left with \<open>max = 3\<close>, or
  \<open>temp\<close> is set. \<open>temp\<close> is assigned in every branch before it is read, so it need
  not be carried from one iteration to the next.
\<close>

datatype iteration = Break | Temp int

definition joint_iteration ::
  "dbl list \<Rightarrow> dbl list \<Rightarrow> dbl list \<Rightarrow> dbl list \<Rightarrow> dbl list \<Rightarrow> dbl list \<Rightarrow> dbl list
     \<Rightarrow> nat \<Rightarrow> iteration option" where
  "joint_iteration pos l1l l1u l2l l2u l3l l3u i =
     (case inside pos l3l l3u i of None \<Rightarrow> None
      | Some True \<Rightarrow> Some Break
      | Some False \<Rightarrow>
         (case inside pos l2l l2u i of None \<Rightarrow> None
          | Some True \<Rightarrow> Some (Temp 2)
          | Some False \<Rightarrow>
             (case inside pos l1l l1u i of None \<Rightarrow> None
              | Some True \<Rightarrow> Some (Temp 1)
              | Some False \<Rightarrow> Some (Temp 0))))"

text \<open>
  The loop \<open>for (int i=0; i< number_of_joints; i++)\<close>, from index \<open>i\<close> with the current
  \<open>max\<close>. The bound \<open>n\<close> is the value of the member \<open>number_of_joints\<close>.
\<close>

function scan ::
  "int \<Rightarrow> dbl list \<Rightarrow> dbl list \<Rightarrow> dbl list \<Rightarrow> dbl list \<Rightarrow> dbl list \<Rightarrow> dbl list \<Rightarrow> dbl list
     \<Rightarrow> nat \<Rightarrow> int \<Rightarrow> int option" where
  "scan n pos l1l l1u l2l l2u l3l l3u i mx =
     (if int i < n
      then (case joint_iteration pos l1l l1u l2l l2u l3l l3u i of
              None \<Rightarrow> None
            | Some Break \<Rightarrow> Some 3
            | Some (Temp t) \<Rightarrow>
                scan n pos l1l l1u l2l l2u l3l l3u (Suc i) (if t \<ge> mx then t else mx))
      else Some mx)"
  by pat_completeness auto
termination
  by (relation "measure (\<lambda>(n, pos, l1l, l1u, l2l, l2u, l3l, l3u, i, mx). nat (n - int i))") auto

text \<open>
  The parameter \<open>number_of_joints_\<close> (here \<open>number_of_joints'\<close>) is received and never
  read: the loop is bounded by the member.
\<close>

definition checkSingularityLevel ::
  "detector \<Rightarrow> 32 word \<Rightarrow> dbl list \<Rightarrow> dbl list \<Rightarrow> dbl list \<Rightarrow> dbl list \<Rightarrow> dbl list
     \<Rightarrow> dbl list \<Rightarrow> dbl list \<Rightarrow> int option" where
  "checkSingularityLevel this number_of_joints' pos l1l l1u l2l l2u l3l l3u =
     scan (sint (number_of_joints this)) pos l1l l1u l2l l2u l3l l3u 0 0"

section \<open>checkAllLimitsSize\<close>

text \<open>
  One of the two loops over \<open>lower_limits\<close> or \<open>upper_limits\<close>, from index \<open>i\<close>. The test
  \<open>limits[i].size() != number_of_joints_\<close> compares a \<open>size_t\<close> with an \<open>int\<close>: the \<open>int\<close> is
  converted to \<open>size_t\<close> (64 bits) first. The first wrong size is logged and ends the whole
  function with \<open>false\<close>; \<open>None\<close> says that the loop ran to its end.
\<close>

fun check_sizes :: "side \<Rightarrow> int \<Rightarrow> nat \<Rightarrow> dbl list list \<Rightarrow> diagnostic option" where
  "check_sizes s n i [] = None"
| "check_sizes s n i (v # vs) =
     (if int (length v) \<noteq> n mod 2 ^ 64
      then Some (WrongSize s i (length v) n)
      else check_sizes s n (Suc i) vs)"

text \<open>The result and what was written to the error log.\<close>

definition checkAllLimitsSize ::
  "32 word \<Rightarrow> dbl list \<Rightarrow> dbl list \<Rightarrow> dbl list \<Rightarrow> dbl list \<Rightarrow> dbl list \<Rightarrow> dbl list
     \<Rightarrow> bool \<times> diagnostic list" where
  "checkAllLimitsSize number_of_joints' l1l l1u l2l l2u l3l l3u =
     (let lower_limits = [l1l, l2l, l3l];
          upper_limits = [l1u, l2u, l3u]
      in case check_sizes Lower (sint number_of_joints') 0 lower_limits of
           Some d \<Rightarrow> (False, [d])
         | None \<Rightarrow>
             (case check_sizes Upper (sint number_of_joints') 0 upper_limits of
                Some d \<Rightarrow> (False, [d])
              | None \<Rightarrow> (True, [])))"

section \<open>configureHook and updateHook\<close>

text \<open>
  \<open>joint_position.resize(number_of_joints)\<close>: an Eigen vector of another size is
  reallocated and its coefficients are not initialised; \<open>fresh\<close> stands for what the new
  memory holds.
\<close>

definition resize :: "(nat \<Rightarrow> dbl) \<Rightarrow> dbl list \<Rightarrow> nat \<Rightarrow> dbl list" where
  "resize fresh v n = (if length v = n then v else map fresh [0..<n])"

text \<open>
  The hook returns its result and the error log, and leaves the object changed. Nothing
  in the \<open>try\<close> block throws except a failed allocation, which the model leaves out;
  the two \<open>catch\<close> handlers are then never entered.
\<close>

definition configureHook :: "(nat \<Rightarrow> dbl) \<Rightarrow> detector \<Rightarrow> bool \<times> diagnostic list \<times> detector" where
  "configureHook fresh this =
     (if sint (number_of_joints this) \<le> 0 then (False, [], this)
      else
        (case checkAllLimitsSize (number_of_joints this) (l1_lower this) (l1_upper this)
                (l2_lower this) (l2_upper this) (l3_lower this) (l3_upper this) of
           (False, diags) \<Rightarrow> (False, diags, this)
         | (True, diags) \<Rightarrow>
             (True, diags,
              this\<lparr>joint_position :=
                      resize fresh (joint_position this) (nat (sint (number_of_joints this))),
                    singularity_scaling := 1\<rparr>)))"

text \<open>
  The task states of the framework that matter here. The component is constructed in
  \<open>PreOperational\<close>. What \<open>configure()\<close> does with the hook's result is taken from the
  comment above \<open>configureHook\<close>: on \<open>true\<close> the \<open>Stopped\<close> state is entered, on \<open>false\<close>
  the \<open>PreOperational\<close> state. The periodic \<open>updateHook\<close> runs in \<open>Running\<close> only, which
  is reached from \<open>Stopped\<close>.
\<close>

datatype task_state = PreOperational | Stopped | Running

definition configure :: "(nat \<Rightarrow> dbl) \<Rightarrow> task_state \<times> detector \<Rightarrow> task_state \<times> detector" where
  "configure fresh c =
     (case c of (ts, this) \<Rightarrow>
        (case configureHook fresh this of
           (ok, diags, this') \<Rightarrow> (if ok then Stopped else PreOperational, this')))"

text \<open>
  One cycle. The outcome of \<open>port_joint_position.read(joint_position)\<close> is given from
  outside: the status, and what \<open>joint_position\<close> holds after the call (the sample, when
  the status is \<open>NewData\<close>). \<open>singularity_level+1\<close> is an \<open>int\<close> stored into a \<open>uint8\<close>.
  \<open>None\<close>: the classifier read out of range.
\<close>

definition updateHook :: "detector \<Rightarrow> flow_status \<times> dbl list \<Rightarrow> detector option" where
  "updateHook this rd =
     (case rd of (status, sample) \<Rightarrow>
        (let this1 = this\<lparr>joint_position := sample\<rparr> in
         if status = NewData
         then (case checkSingularityLevel this1 (number_of_joints this1) (joint_position this1)
                      (l1_lower this1) (l1_upper this1) (l2_lower this1) (l2_upper this1)
                      (l3_lower this1) (l3_upper this1) of
                 None \<Rightarrow> None
               | Some singularity_level \<Rightarrow>
                   (let this2 = this1\<lparr>singularity_scaling := word_of_int (singularity_level + 1)\<rparr>
                    in Some (this2\<lparr>port_singularity_scaling :=
                                port_singularity_scaling this2 @ [singularity_scaling this2]\<rparr>)))
         else Some (this1\<lparr>port_singularity_scaling :=
                      port_singularity_scaling this1 @ [singularity_scaling this1]\<rparr>)))"

text \<open>A run of cycles, one read outcome per cycle.\<close>

fun cycles :: "detector \<Rightarrow> (flow_status \<times> dbl list) list \<Rightarrow> detector option" where
  "cycles this [] = Some this"
| "cycles this (rd # rds) =
     (case updateHook this rd of None \<Rightarrow> None | Some this' \<Rightarrow> cycles this' rds)"

section \<open>What the specification compares the program with\<close>

text \<open>
  The local level of joint \<open>i\<close> in the specification's words: 3 if
  \<open>band3.lower[i] < position[i] < band3.upper[i]\<close>, else 2 for band 2, else 1 for band 1,
  else 0.
\<close>

definition local_level ::
  "dbl list \<Rightarrow> dbl list \<Rightarrow> dbl list \<Rightarrow> dbl list \<Rightarrow> dbl list \<Rightarrow> dbl list \<Rightarrow> dbl list
     \<Rightarrow> nat \<Rightarrow> int" where
  "local_level pos l1l l1u l2l l2u l3l l3u i =
     (if dlt (l3l ! i) (pos ! i) \<and> dlt (pos ! i) (l3u ! i) then 3
      else if dlt (l2l ! i) (pos ! i) \<and> dlt (pos ! i) (l2u ! i) then 2
      else if dlt (l1l ! i) (pos ! i) \<and> dlt (pos ! i) (l1u ! i) then 1
      else 0)"

text \<open>
  The reference classifier of the specification: it visits every joint from \<open>0\<close> to
  \<open>n - 1\<close>, never leaves early, and keeps the largest local level seen.
\<close>

definition reference_classify ::
  "nat \<Rightarrow> dbl list \<Rightarrow> dbl list \<Rightarrow> dbl list \<Rightarrow> dbl list \<Rightarrow> dbl list \<Rightarrow> dbl list \<Rightarrow> dbl list
     \<Rightarrow> int" where
  "reference_classify n pos l1l l1u l2l l2u l3l l3u =
     fold (\<lambda>j acc. max acc (local_level pos l1l l1u l2l l2u l3l l3u j)) [0..<n] 0"

text \<open>Position and all six limit sequences have the length \<open>n\<close>.\<close>

definition length_matched ::
  "nat \<Rightarrow> dbl list \<Rightarrow> dbl list \<Rightarrow> dbl list \<Rightarrow> dbl list \<Rightarrow> dbl list \<Rightarrow> dbl list \<Rightarrow> dbl list
     \<Rightarrow> bool" where
  "length_matched n pos l1l l1u l2l l2u l3l l3u =
     (length pos = n \<and> length l1l = n \<and> length l1u = n \<and> length l2l = n \<and>
      length l2u = n \<and> length l3l = n \<and> length l3u = n)"

text \<open>
  What the specification asks the validator to report: one diagnostic for every sequence
  whose length differs from the joint count, lower tables first, each with the index of
  its band, the length found and the length expected.
\<close>

definition mismatches :: "side \<Rightarrow> int \<Rightarrow> dbl list list \<Rightarrow> diagnostic list" where
  "mismatches s n vs =
     map (\<lambda>i. WrongSize s i (length (vs ! i)) n)
       (filter (\<lambda>i. int (length (vs ! i)) \<noteq> n) [0..<length vs])"

definition all_mismatches ::
  "32 word \<Rightarrow> dbl list \<Rightarrow> dbl list \<Rightarrow> dbl list \<Rightarrow> dbl list \<Rightarrow> dbl list \<Rightarrow> dbl list
     \<Rightarrow> diagnostic list" where
  "all_mismatches n l1l l1u l2l l2u l3l l3u =
     mismatches Lower (sint n) [l1l, l2l, l3l] @ mismatches Upper (sint n) [l1u, l2u, l3u]"

text \<open>
  A \<open>std::vector<double>\<close> cannot hold \<open>2^63\<close> elements or more (its \<open>max_size()\<close> is
  below that); a list of the model stands for a vector only when it is that short.
\<close>

definition storable :: "dbl list \<Rightarrow> bool" where
  "storable v = (length v < 2 ^ 63)"

text \<open>
  The state in which the cycles run: the joint count is \<open>n\<close> and the six tables of the
  object have that length, as a successful \<open>configureHook\<close> has checked.
\<close>

definition configured :: "nat \<Rightarrow> detector \<Rightarrow> bool" where
  "configured n this =
     (sint (number_of_joints this) = int n \<and>
      length (l1_lower this) = n \<and> length (l1_upper this) = n \<and>
      length (l2_lower this) = n \<and> length (l2_upper this) = n \<and>
      length (l3_lower this) = n \<and> length (l3_upper this) = n)"

text \<open>The call of the classifier that \<open>updateHook\<close> makes on a sample.\<close>

definition sample_level :: "detector \<Rightarrow> dbl list \<Rightarrow> int option" where
  "sample_level this sample =
     checkSingularityLevel this (number_of_joints this) sample
       (l1_lower this) (l1_upper this) (l2_lower this) (l2_upper this)
       (l3_lower this) (l3_upper this)"

text \<open>
  The object after a cycle that left \<open>buf\<close> in \<open>joint_position\<close>, holds the scaling \<open>s\<close> and
  has written \<open>s\<close> to the output port, once.
\<close>

definition published :: "detector \<Rightarrow> dbl list \<Rightarrow> 8 word \<Rightarrow> detector" where
  "published this buf s =
     this\<lparr>joint_position := buf, singularity_scaling := s,
          port_singularity_scaling := port_singularity_scaling this @ [s]\<rparr>"

text \<open>
  How the specification describes a joint whose position moves toward band 3: the
  bands of joint \<open>i\<close> are nested when band 3 lies in band 2 and band 2 in band 1; \<open>y\<close>
  lies between \<open>x\<close> and \<open>c\<close> when a move from \<open>x\<close> to \<open>y\<close> goes toward \<open>c\<close> without
  passing it; every joint other than \<open>i\<close> is outside all of its bands when its local
  level is 0.
\<close>

definition nested_bands ::
  "dbl list \<Rightarrow> dbl list \<Rightarrow> dbl list \<Rightarrow> dbl list \<Rightarrow> dbl list \<Rightarrow> dbl list \<Rightarrow> nat \<Rightarrow> bool" where
  "nested_bands l1l l1u l2l l2u l3l l3u i =
     (dle (l1l ! i) (l2l ! i) \<and> dle (l2l ! i) (l3l ! i) \<and>
      dle (l3u ! i) (l2u ! i) \<and> dle (l2u ! i) (l1u ! i))"

definition between :: "dbl \<Rightarrow> dbl \<Rightarrow> dbl \<Rightarrow> bool" where
  "between x y c = ((dle x y \<and> dle y c) \<or> (dle c y \<and> dle y x))"

definition others_outside ::
  "nat \<Rightarrow> nat \<Rightarrow> dbl list \<Rightarrow> dbl list \<Rightarrow> dbl list \<Rightarrow> dbl list \<Rightarrow> dbl list \<Rightarrow> dbl list \<Rightarrow> dbl list
     \<Rightarrow> bool" where
  "others_outside n i pos l1l l1u l2l l2u l3l l3u =
     (\<forall>j \<in> {0..<n} - {i}. local_level pos l1l l1u l2l l2u l3l l3u j = 0)"

text \<open>
  A detector with one joint whose bands are not nested: band 1 is \<open>(0, 1)\<close>, band 2 is
  \<open>(3, 7)\<close> and band 3 is \<open>(4, 6)\<close>, with centre 5.
\<close>

definition single_joint_detector :: detector where
  "single_joint_detector =
     \<lparr>l1_lower = [Fin 0], l1_upper = [Fin 1], l2_lower = [Fin 3], l2_upper = [Fin 7],
      l3_lower = [Fin 4], l3_upper = [Fin 6],
      number_of_joints = 1, singularity_scaling = 1, joint_position = [Fin 5],
      port_singularity_scaling = []\<rparr>"

text \<open>
  A configured detector with two joints and nested bands, for the worked examples:
  band 1 is \<open>(-1, 1)\<close>, band 2 is \<open>(-1/2, 1/2)\<close>, band 3 is \<open>(-1/4, 1/4)\<close> on both joints.
\<close>

definition example_detector :: detector where
  "example_detector =
     \<lparr>l1_lower = [Fin (-1), Fin (-1)], l1_upper = [Fin 1, Fin 1],
      l2_lower = [Fin (-1/2), Fin (-1/2)], l2_upper = [Fin (1/2), Fin (1/2)],
      l3_lower = [Fin (-1/4), Fin (-1/4)], l3_upper = [Fin (1/4), Fin (1/4)],
      number_of_joints = 2, singularity_scaling = 1, joint_position = [Fin 5, Fin 5],
      port_singularity_scaling = []\<rparr>"

section \<open>Auxiliary facts\<close>

lemma dlt_irrefl: "\<not> dlt a a"
  by (cases a) simp_all

lemma inside_in_range:
  "i < length pos \<Longrightarrow> i < length lower \<Longrightarrow> i < length upper \<Longrightarrow>
   inside pos lower upper i = Some (dlt (lower ! i) (pos ! i) \<and> dlt (pos ! i) (upper ! i))"
  by (auto simp: inside_def elem_def dgt_def)

lemma joint_iteration_in_range:
  assumes "i < length pos" "i < length l1l" "i < length l1u" "i < length l2l" "i < length l2u"
    "i < length l3l" "i < length l3u"
  shows "joint_iteration pos l1l l1u l2l l2u l3l l3u i =
     Some (if local_level pos l1l l1u l2l l2u l3l l3u i = 3 then Break
           else Temp (local_level pos l1l l1u l2l l2u l3l l3u i))"
  using assms by (auto simp: joint_iteration_def inside_in_range local_level_def)

lemma local_level_bounds:
  "0 \<le> local_level pos l1l l1u l2l l2u l3l l3u i"
  "local_level pos l1l l1u l2l l2u l3l l3u i \<le> 3"
  by (simp_all add: local_level_def)

lemma fold_max_top:
  "\<forall>j \<in> set js. f j \<le> (3::int) \<Longrightarrow> fold (\<lambda>j a. max a (f j)) js 3 = 3"
  by (induction js) auto

text \<open>
  The loop against the fold, for any starting index and any \<open>max\<close> not above 3: leaving
  at a joint of level 3 gives what the remaining joints could not have changed.
\<close>

lemma scan_fold:
  assumes len: "N \<le> length pos" "N \<le> length l1l" "N \<le> length l1u" "N \<le> length l2l"
      "N \<le> length l2u" "N \<le> length l3l" "N \<le> length l3u"
    and n: "n = int N"
  shows "i \<le> N \<Longrightarrow> mx \<le> 3 \<Longrightarrow>
     scan n pos l1l l1u l2l l2u l3l l3u i mx =
       Some (fold (\<lambda>j a. max a (local_level pos l1l l1u l2l l2u l3l l3u j)) [i..<N] mx)"
proof (induction "N - i" arbitrary: i mx)
  case 0
  then have "i = N" by simp
  then show ?case using n by simp
next
  case (Suc k)
  then have lt: "i < N" by simp
  let ?ll = "local_level pos l1l l1u l2l l2u l3l l3u"
  have it: "joint_iteration pos l1l l1u l2l l2u l3l l3u i =
     Some (if ?ll i = 3 then Break else Temp (?ll i))"
    using lt len by (intro joint_iteration_in_range) simp_all
  have upt: "[i..<N] = i # [Suc i..<N]" using lt by (simp add: upt_conv_Cons)
  show ?case
  proof (cases "?ll i = 3")
    case True
    have "fold (\<lambda>j a. max a (?ll j)) [Suc i..<N] 3 = 3"
      by (rule fold_max_top) (simp add: local_level_bounds)
    with True it lt n Suc.prems show ?thesis
      by (simp add: upt max_def)
  next
    case False
    have le3: "?ll i \<le> 3" by (rule local_level_bounds)
    have IH: "scan n pos l1l l1u l2l l2u l3l l3u (Suc i) (max mx (?ll i)) =
      Some (fold (\<lambda>j a. max a (?ll j)) [Suc i..<N] (max mx (?ll i)))"
      using Suc.hyps(1)[of "Suc i" "max mx (?ll i)"] Suc.hyps(2) lt Suc.prems le3 by simp
    have "(if mx \<le> ?ll i then ?ll i else mx) = max mx (?ll i)" by (simp add: max_def)
    with False it lt n IH show ?thesis
      by (simp add: upt)
  qed
qed

lemma classifier_fold:
  assumes "length_matched n pos l1l l1u l2l l2u l3l l3u"
    and "sint (number_of_joints this) = int n"
  shows "checkSingularityLevel this p pos l1l l1u l2l l2u l3l l3u =
     Some (reference_classify n pos l1l l1u l2l l2u l3l l3u)"
  using assms scan_fold [of n pos l1l l1u l2l l2u l3l l3u "int n" 0 0]
  by (simp add: checkSingularityLevel_def reference_classify_def length_matched_def)

lemma Max_insert_max:
  "finite S \<Longrightarrow> Max (insert (max a b) S) = Max (insert (a::int) (insert b S))"
  by (cases "S = {}") (simp_all add: max.assoc)

lemma fold_max_Max:
  "fold (\<lambda>j a. max a (f j)) js m = Max (insert (m::int) (f ` set js))"
proof (induction js arbitrary: m)
  case Nil
  show ?case by simp
next
  case (Cons j js)
  show ?case
    by (simp add: Cons.IH Max_insert_max)
qed

lemma reference_classify_Max:
  assumes "0 < n"
  shows "reference_classify n pos l1l l1u l2l l2u l3l l3u =
     Max ((\<lambda>i. local_level pos l1l l1u l2l l2u l3l l3u i) ` {0..<n})"
proof -
  let ?f = "local_level pos l1l l1u l2l l2u l3l l3u"
  have fin: "finite (?f ` {0..<n})" by simp
  have mem: "?f 0 \<in> ?f ` {0..<n}" using assms by simp
  then have ne: "?f ` {0..<n} \<noteq> {}" by blast
  have "0 \<le> ?f 0" by (rule local_level_bounds)
  also have "?f 0 \<le> Max (?f ` {0..<n})" using fin mem by (rule Max_ge)
  finally have "max 0 (Max (?f ` {0..<n})) = Max (?f ` {0..<n})" by simp
  then have "Max (insert 0 (?f ` {0..<n})) = Max (?f ` {0..<n})"
    using Max_insert [OF fin ne, of 0] by simp
  then show ?thesis
    by (simp add: reference_classify_def fold_max_Max)
qed

section \<open>The classifier\<close>

text \<open>
  Claim C1. For a joint count \<open>n > 0\<close> (the member \<open>number_of_joints\<close>, which \<open>updateHook\<close>
  also passes as the argument), a position of length \<open>n\<close> and six limit sequences of
  length \<open>n\<close>, \<open>checkSingularityLevel\<close> returns the maximum over the joints \<open>0..n-1\<close> of the
  local level of each joint: 3 inside band 3, else 2 inside band 2, else 1 inside band 1,
  else 0.
\<close>

theorem C1_level_is_max_of_local_levels:
  assumes "0 < n" and "sint (number_of_joints this) = int n"
    and "length_matched n pos l1l l1u l2l l2u l3l l3u"
  shows "checkSingularityLevel this p pos l1l l1u l2l l2u l3l l3u =
     Some (Max ((\<lambda>i. local_level pos l1l l1u l2l l2u l3l l3u i) ` {0..<n}))"
  using assms classifier_fold [of n pos l1l l1u l2l l2u l3l l3u this p]
  by (simp add: reference_classify_Max)

theorem C1_level_is_max_of_local_levels_witness:
  "0 < (2::nat) \<and> sint (number_of_joints example_detector) = int 2 \<and>
   length_matched 2 [Fin (3/4), Fin 5] (l1_lower example_detector) (l1_upper example_detector)
     (l2_lower example_detector) (l2_upper example_detector)
     (l3_lower example_detector) (l3_upper example_detector) \<and>
   checkSingularityLevel example_detector 2 [Fin (3/4), Fin 5]
     (l1_lower example_detector) (l1_upper example_detector)
     (l2_lower example_detector) (l2_upper example_detector)
     (l3_lower example_detector) (l3_upper example_detector) =
   Some (Max ((\<lambda>i. local_level [Fin (3/4), Fin 5]
     (l1_lower example_detector) (l1_upper example_detector)
     (l2_lower example_detector) (l2_upper example_detector)
     (l3_lower example_detector) (l3_upper example_detector) i) ` {0..<2}))"
  using C1_level_is_max_of_local_levels [of 2 example_detector "[Fin (3/4), Fin 5]"
     "l1_lower example_detector" "l1_upper example_detector"
     "l2_lower example_detector" "l2_upper example_detector"
     "l3_lower example_detector" "l3_upper example_detector" 2]
  by (simp add: example_detector_def length_matched_def)

text \<open>
  Claim C6. On length-matched input the classifier, which leaves the loop at the first
  joint of local level 3, returns the level of the reference classifier, which visits
  every joint and keeps the maximum.
\<close>

theorem C6_early_exit_equals_full_scan:
  assumes "length_matched n pos l1l l1u l2l l2u l3l l3u"
    and "sint (number_of_joints this) = int n"
  shows "checkSingularityLevel this p pos l1l l1u l2l l2u l3l l3u =
     Some (reference_classify n pos l1l l1u l2l l2u l3l l3u)"
  using assms by (rule classifier_fold)

text \<open>
  With joint 0 inside its band 3 the program leaves the loop at joint 0 and never looks
  at joint 1.
\<close>

theorem C6_early_exit_equals_full_scan_witness:
  "length_matched 2 [Fin (1/8), Fin 5] (l1_lower example_detector) (l1_upper example_detector)
     (l2_lower example_detector) (l2_upper example_detector)
     (l3_lower example_detector) (l3_upper example_detector) \<and>
   sint (number_of_joints example_detector) = int 2 \<and>
   joint_iteration [Fin (1/8), Fin 5] (l1_lower example_detector) (l1_upper example_detector)
     (l2_lower example_detector) (l2_upper example_detector)
     (l3_lower example_detector) (l3_upper example_detector) 0 = Some Break \<and>
   checkSingularityLevel example_detector 2 [Fin (1/8), Fin 5]
     (l1_lower example_detector) (l1_upper example_detector)
     (l2_lower example_detector) (l2_upper example_detector)
     (l3_lower example_detector) (l3_upper example_detector) =
   Some (reference_classify 2 [Fin (1/8), Fin 5]
     (l1_lower example_detector) (l1_upper example_detector)
     (l2_lower example_detector) (l2_upper example_detector)
     (l3_lower example_detector) (l3_upper example_detector))"
  using C6_early_exit_equals_full_scan [of 2 "[Fin (1/8), Fin 5]"
     "l1_lower example_detector" "l1_upper example_detector"
     "l2_lower example_detector" "l2_upper example_detector"
     "l3_lower example_detector" "l3_upper example_detector" example_detector 2]
  by (simp add: example_detector_def length_matched_def joint_iteration_def inside_def
      elem_def dgt_def)

text \<open>
  Claim C9. The level returned does not depend on the argument \<open>number_of_joints_\<close>: two
  calls on the same object with the same position and limits and any two values of that
  argument return the same, since the loop is bounded by the member \<open>number_of_joints\<close>.
\<close>

theorem C9_level_independent_of_argument:
  "checkSingularityLevel this p pos l1l l1u l2l l2u l3l l3u =
   checkSingularityLevel this p' pos l1l l1u l2l l2u l3l l3u \<and>
   checkSingularityLevel this p pos l1l l1u l2l l2u l3l l3u =
   scan (sint (number_of_joints this)) pos l1l l1u l2l l2u l3l l3u 0 0"
  by (simp add: checkSingularityLevel_def)

text \<open>
  The size test of the program against the plain comparison of lengths: converting a
  negative \<open>int\<close> to \<open>size_t\<close> gives a value no vector's size reaches.
\<close>

lemma size_test:
  fixes n :: "32 word"
  assumes "storable v"
  shows "(int (length v) = sint n mod 2 ^ 64) = (int (length v) = sint n)"
proof (cases "0 \<le> sint n")
  case True
  have "sint n < 2 ^ 31" using sint_lt [of n] by simp
  then have "sint n mod 2 ^ 64 = sint n" using True by simp
  then show ?thesis by simp
next
  case False
  have ge: "- (2 ^ 31) \<le> sint n" using sint_ge [of n] by simp
  have "(sint n + 2 ^ 64) mod 2 ^ 64 = sint n + 2 ^ 64"
    using False ge by (intro mod_pos_pos_trivial) simp_all
  then have "sint n mod 2 ^ 64 = sint n + 2 ^ 64" by simp
  moreover have "int (length v) < 2 ^ 63" using assms by (simp add: storable_def)
  ultimately show ?thesis using False ge by simp
qed

lemma mismatches_three:
  "mismatches s n [a, b, c] =
     (if int (length a) \<noteq> n then [WrongSize s 0 (length a) n] else []) @
     (if int (length b) \<noteq> n then [WrongSize s 1 (length b) n] else []) @
     (if int (length c) \<noteq> n then [WrongSize s 2 (length c) n] else [])"
  by (simp add: mismatches_def upt_rec)

lemma check_sizes_three:
  fixes n :: "32 word"
  assumes "storable a" "storable b" "storable c"
  shows "check_sizes s (sint n) 0 [a, b, c] =
     (case mismatches s (sint n) [a, b, c] of [] \<Rightarrow> None | d # ds \<Rightarrow> Some d)"
proof -
  have t: "(int (length a) = sint n mod 2 ^ 64) = (int (length a) = sint n)"
    "(int (length b) = sint n mod 2 ^ 64) = (int (length b) = sint n)"
    "(int (length c) = sint n mod 2 ^ 64) = (int (length c) = sint n)"
    using assms by (simp_all only: size_test)
  show ?thesis
    unfolding check_sizes.simps t by (simp add: mismatches_three)
qed

lemma checkAllLimitsSize_pos:
  assumes "0 < sint n"
  shows "fst (checkAllLimitsSize n l1l l1u l2l l2u l3l l3u) \<longleftrightarrow>
     (\<forall>v \<in> set [l1l, l1u, l2l, l2u, l3l, l3u]. int (length v) = sint n)"
proof -
  have "sint n < 2 ^ 31" using sint_lt [of n] by simp
  then have m: "sint n mod 2 ^ 64 = sint n" using assms by simp
  show ?thesis
    unfolding checkAllLimitsSize_def Let_def check_sizes.simps m
    by auto
qed

section \<open>The validator\<close>

text \<open>
  Claim C2, as the specification states it: when more than one of the six sequences has
  a wrong length, every one of them is reported. The program does otherwise. With joint
  count 3, both lower tables of bands 1 and 2 empty and the upper table of band 3 of
  length 1, three sequences are wrong and the log receives the first one only.
\<close>

theorem C2_reports_first_mismatch_only_counterexample:
  "length (all_mismatches 3 [] [Fin 1, Fin 1, Fin 1] [] [Fin 1, Fin 1, Fin 1]
      [Fin 1, Fin 1, Fin 1] [Fin 1]) = 3 \<and>
   snd (checkAllLimitsSize 3 [] [Fin 1, Fin 1, Fin 1] [] [Fin 1, Fin 1, Fin 1]
      [Fin 1, Fin 1, Fin 1] [Fin 1]) = [WrongSize Lower 0 0 3] \<and>
   set (snd (checkAllLimitsSize 3 [] [Fin 1, Fin 1, Fin 1] [] [Fin 1, Fin 1, Fin 1]
      [Fin 1, Fin 1, Fin 1] [Fin 1])) \<noteq>
   set (all_mismatches 3 [] [Fin 1, Fin 1, Fin 1] [] [Fin 1, Fin 1, Fin 1]
      [Fin 1, Fin 1, Fin 1] [Fin 1])"
  by (simp add: all_mismatches_def mismatches_three checkAllLimitsSize_def)

text \<open>
  Claim C2, amended. Whenever at least one of the six sequences has a length different
  from the joint count, \<open>checkAllLimitsSize\<close> returns false and logs exactly one
  diagnostic: that of the first wrong sequence in the order lower 1, lower 2, lower 3,
  upper 1, upper 2, upper 3, with its index, its length and the expected length. It
  stops there and does not look at the sequences after it.
\<close>

theorem C2_reports_first_mismatch_only:
  assumes st: "\<forall>v \<in> set [l1l, l1u, l2l, l2u, l3l, l3u]. storable v"
    and mm: "all_mismatches n l1l l1u l2l l2u l3l l3u \<noteq> []"
  shows "checkAllLimitsSize n l1l l1u l2l l2u l3l l3u =
     (False, [hd (all_mismatches n l1l l1u l2l l2u l3l l3u)])"
proof -
  have lo: "check_sizes Lower (sint n) 0 [l1l, l2l, l3l] =
     (case mismatches Lower (sint n) [l1l, l2l, l3l] of [] \<Rightarrow> None | d # ds \<Rightarrow> Some d)"
    using st by (intro check_sizes_three) simp_all
  have up: "check_sizes Upper (sint n) 0 [l1u, l2u, l3u] =
     (case mismatches Upper (sint n) [l1u, l2u, l3u] of [] \<Rightarrow> None | d # ds \<Rightarrow> Some d)"
    using st by (intro check_sizes_three) simp_all
  show ?thesis
    using mm unfolding checkAllLimitsSize_def all_mismatches_def Let_def lo up
    by (cases "mismatches Lower (sint n) [l1l, l2l, l3l]";
        cases "mismatches Upper (sint n) [l1u, l2u, l3u]") simp_all
qed

theorem C2_reports_first_mismatch_only_witness:
  "storable [] \<and> storable [Fin 1, Fin 1, Fin 1] \<and> storable [Fin 1] \<and>
   all_mismatches 3 [] [Fin 1, Fin 1, Fin 1] [] [Fin 1, Fin 1, Fin 1]
      [Fin 1, Fin 1, Fin 1] [Fin 1] =
     [WrongSize Lower 0 0 3, WrongSize Lower 1 0 3, WrongSize Upper 2 1 3] \<and>
   checkAllLimitsSize 3 [] [Fin 1, Fin 1, Fin 1] [] [Fin 1, Fin 1, Fin 1]
      [Fin 1, Fin 1, Fin 1] [Fin 1] = (False, [WrongSize Lower 0 0 3])"
  using C2_reports_first_mismatch_only [of "[]" "[Fin 1, Fin 1, Fin 1]" "[]"
     "[Fin 1, Fin 1, Fin 1]" "[Fin 1, Fin 1, Fin 1]" "[Fin 1]" 3]
  by (simp add: storable_def all_mismatches_def mismatches_three)

text \<open>
  Claim C3. The configuration gate, \<open>configureHook\<close> with its test of
  \<open>number_of_joints\<close> and its call of \<open>checkAllLimitsSize\<close>, returns true exactly when the
  joint count is positive and all six sequences have that length; for a joint count of
  zero or less it returns false whatever the lengths are; and when it returns false the
  task is left in \<open>PreOperational\<close> by \<open>configure\<close>, while it enters \<open>Stopped\<close> when the gate
  returns true.
\<close>

theorem C3_configuration_gate:
  "(fst (configureHook fresh this) \<longleftrightarrow>
      0 < sint (number_of_joints this) \<and>
      (\<forall>v \<in> set [l1_lower this, l1_upper this, l2_lower this, l2_upper this,
                  l3_lower this, l3_upper this].
         int (length v) = sint (number_of_joints this))) \<and>
   (sint (number_of_joints this) \<le> 0 \<longrightarrow> \<not> fst (configureHook fresh this)) \<and>
   (fst (configure fresh (PreOperational, this)) =
      (if fst (configureHook fresh this) then Stopped else PreOperational))"
proof -
  have a: "fst (configureHook fresh this) \<longleftrightarrow>
      0 < sint (number_of_joints this) \<and>
      fst (checkAllLimitsSize (number_of_joints this) (l1_lower this) (l1_upper this)
                (l2_lower this) (l2_upper this) (l3_lower this) (l3_upper this))"
    by (auto simp: configureHook_def split: prod.splits bool.splits)
  have b: "fst (configure fresh (PreOperational, this)) =
      (if fst (configureHook fresh this) then Stopped else PreOperational)"
    by (simp add: configure_def split: prod.splits)
  have c: "fst (configureHook fresh this) \<longleftrightarrow>
      0 < sint (number_of_joints this) \<and>
      (\<forall>v \<in> set [l1_lower this, l1_upper this, l2_lower this, l2_upper this,
                  l3_lower this, l3_upper this].
         int (length v) = sint (number_of_joints this))"
    using a checkAllLimitsSize_pos [of "number_of_joints this" "l1_lower this" "l1_upper this"
        "l2_lower this" "l2_upper this" "l3_lower this" "l3_upper this"]
    by blast
  have d: "sint (number_of_joints this) \<le> 0 \<longrightarrow> \<not> fst (configureHook fresh this)"
    using a by simp
  from c d b show ?thesis by (intro conjI)
qed

text \<open>
  The gate at the example detector, which it lets through, and at the same detector with
  the joint count set to \<open>-1\<close> and then to 3, which it refuses.
\<close>

theorem C3_configuration_gate_witness:
  "fst (configureHook (\<lambda>k. NaN) example_detector) \<and>
   fst (configure (\<lambda>k. NaN) (PreOperational, example_detector)) = Stopped \<and>
   sint (number_of_joints (example_detector\<lparr>number_of_joints := - 1\<rparr>)) \<le> 0 \<and>
   \<not> fst (configureHook (\<lambda>k. NaN) (example_detector\<lparr>number_of_joints := - 1\<rparr>)) \<and>
   fst (configure (\<lambda>k. NaN) (PreOperational, example_detector\<lparr>number_of_joints := - 1\<rparr>))
     = PreOperational \<and>
   \<not> fst (configureHook (\<lambda>k. NaN) (example_detector\<lparr>number_of_joints := 3\<rparr>)) \<and>
   fst (configure (\<lambda>k. NaN) (PreOperational, example_detector\<lparr>number_of_joints := 3\<rparr>))
     = PreOperational"
  using C3_configuration_gate [of "\<lambda>k. NaN" example_detector]
    C3_configuration_gate [of "\<lambda>k. NaN" "example_detector\<lparr>number_of_joints := - 1\<rparr>"]
    C3_configuration_gate [of "\<lambda>k. NaN" "example_detector\<lparr>number_of_joints := 3\<rparr>"]
  by (simp add: example_detector_def)

text \<open>
  Claim C10. \<open>checkAllLimitsSize\<close> alone does not refuse a joint count of zero: with
  \<open>number_of_joints_ = 0\<close> and six empty sequences it returns true and logs nothing. The
  same configuration is refused by \<open>configureHook\<close>, through its own test
  \<open>number_of_joints <= 0\<close>.
\<close>

theorem C10_size_check_accepts_zero_joints:
  "checkAllLimitsSize 0 [] [] [] [] [] [] = (True, []) \<and>
   \<not> fst (configureHook fresh
      \<lparr>l1_lower = [], l1_upper = [], l2_lower = [], l2_upper = [], l3_lower = [],
       l3_upper = [], number_of_joints = 0, singularity_scaling = s, joint_position = jp,
       port_singularity_scaling = out\<rparr>)"
  by (simp add: checkAllLimitsSize_def configureHook_def)

lemma fold_max_bounds:
  "0 \<le> m \<Longrightarrow> m \<le> 3 \<Longrightarrow> \<forall>j \<in> set js. 0 \<le> f j \<and> f j \<le> (3::int) \<Longrightarrow>
   0 \<le> fold (\<lambda>j a. max a (f j)) js m \<and> fold (\<lambda>j a. max a (f j)) js m \<le> 3"
  by (induction js arbitrary: m) auto

lemma reference_classify_bounds:
  "0 \<le> reference_classify n pos l1l l1u l2l l2u l3l l3u \<and>
   reference_classify n pos l1l l1u l2l l2u l3l l3u \<le> 3"
  unfolding reference_classify_def
  by (rule fold_max_bounds) (simp_all add: local_level_bounds)

lemma sample_level_configured:
  assumes "configured n this" "length sample = n"
  shows "sample_level this sample =
     Some (reference_classify n sample (l1_lower this) (l1_upper this) (l2_lower this)
        (l2_upper this) (l3_lower this) (l3_upper this))"
  unfolding sample_level_def
  using assms by (intro classifier_fold) (simp_all add: configured_def length_matched_def)

lemma updateHook_new:
  "updateHook this (NewData, sample) =
     (case sample_level this sample of None \<Rightarrow> None
      | Some level \<Rightarrow> Some (published this sample (word_of_int (level + 1))))"
  by (simp add: updateHook_def sample_level_def checkSingularityLevel_def published_def Let_def
      split: option.splits)

lemma updateHook_old:
  "status \<noteq> NewData \<Longrightarrow>
   updateHook this (status, buf) = Some (published this buf (singularity_scaling this))"
  by (simp add: updateHook_def published_def Let_def)

lemma cycles_no_data:
  "\<forall>rd \<in> set rds. fst rd \<noteq> NewData \<Longrightarrow>
   \<exists>this'. cycles this rds = Some this' \<and>
     singularity_scaling this' = singularity_scaling this \<and>
     port_singularity_scaling this' =
       port_singularity_scaling this @ replicate (length rds) (singularity_scaling this)"
proof (induction rds arbitrary: this)
  case Nil
  show ?case by simp
next
  case (Cons rd rds)
  obtain status buf where rd: "rd = (status, buf)" by (cases rd)
  with Cons.prems have st: "status \<noteq> NewData" by simp
  let ?t = "published this buf (singularity_scaling this)"
  from Cons.prems have "\<forall>rd \<in> set rds. fst rd \<noteq> NewData" by simp
  from Cons.IH [OF this, of ?t] obtain this' where
    c: "cycles ?t rds = Some this'" and
    s: "singularity_scaling this' = singularity_scaling ?t" and
    p: "port_singularity_scaling this' =
       port_singularity_scaling ?t @ replicate (length rds) (singularity_scaling ?t)"
    by blast
  have "cycles this (rd # rds) = Some this'"
    using c st by (simp add: rd updateHook_old)
  moreover have "singularity_scaling this' = singularity_scaling this"
    using s by (simp add: published_def)
  moreover have "port_singularity_scaling this' =
       port_singularity_scaling this @ replicate (length (rd # rds)) (singularity_scaling this)"
    using p by (simp add: published_def)
  ultimately show ?case by blast
qed

lemma scaling_range:
  "0 \<le> level \<Longrightarrow> level \<le> 3 \<Longrightarrow> (word_of_int (level + 1) :: 8 word) \<in> {1, 2, 3, 4}"
proof -
  assume "0 \<le> level" "level \<le> 3"
  then have "level = 0 \<or> level = 1 \<or> level = 2 \<or> level = 3" by arith
  then show ?thesis by auto
qed

section \<open>The evaluation cycle\<close>

text \<open>
  Claim C4. In every cycle: when a new sample is available, \<open>updateHook\<close> sets the scaling
  to the classifier's level for that sample plus 1, and in a configured detector with a
  sample of the right length the classifier does return a level, between 0 and 3, so
  that the scaling is one of 1, 2, 3, 4; when no new sample is available (\<open>NoData\<close> or
  \<open>OldData\<close>) the scaling keeps its value; in both cases the scaling is written to the
  output port exactly once. So a cycle that classified level \<open>l\<close>, followed by any number
  of cycles without a new sample, writes \<open>l + 1\<close> in each of them: after level 2, five
  such cycles write 3 each.
\<close>

theorem C4_evaluation_cycle:
  "(configured n this \<and> length sample = n \<longrightarrow>
      (\<exists>level. sample_level this sample = Some level \<and> 0 \<le> level \<and> level \<le> 3 \<and>
         (word_of_int (level + 1) :: 8 word) \<in> {1, 2, 3, 4})) \<and>
   (sample_level this sample = Some level \<longrightarrow>
      updateHook this (NewData, sample) =
        Some (published this sample (word_of_int (level + 1)))) \<and>
   (status \<noteq> NewData \<longrightarrow>
      updateHook this (status, buf) = Some (published this buf (singularity_scaling this))) \<and>
   (sample_level this sample = Some level \<and> (\<forall>rd \<in> set rds. fst rd \<noteq> NewData) \<longrightarrow>
      (\<exists>this'. cycles this ((NewData, sample) # rds) = Some this' \<and>
         port_singularity_scaling this' =
           port_singularity_scaling this @
             replicate (Suc (length rds)) (word_of_int (level + 1))))"
proof (intro conjI impI)
  assume c: "configured n this \<and> length sample = n"
  let ?r = "reference_classify n sample (l1_lower this) (l1_upper this) (l2_lower this)
        (l2_upper this) (l3_lower this) (l3_upper this)"
  have l: "sample_level this sample = Some ?r"
    using c by (intro sample_level_configured) simp_all
  have b: "0 \<le> ?r \<and> ?r \<le> 3" by (rule reference_classify_bounds)
  then have "(word_of_int (?r + 1) :: 8 word) \<in> {1, 2, 3, 4}"
    by (intro scaling_range) simp_all
  with l b show "\<exists>level. sample_level this sample = Some level \<and> 0 \<le> level \<and> level \<le> 3 \<and>
         (word_of_int (level + 1) :: 8 word) \<in> {1, 2, 3, 4}"
    by (intro exI [of _ ?r]) simp
next
  assume "sample_level this sample = Some level"
  then show "updateHook this (NewData, sample) =
        Some (published this sample (word_of_int (level + 1)))"
    by (simp add: updateHook_new)
next
  assume "status \<noteq> NewData"
  then show "updateHook this (status, buf) = Some (published this buf (singularity_scaling this))"
    by (rule updateHook_old)
next
  assume a: "sample_level this sample = Some level \<and> (\<forall>rd \<in> set rds. fst rd \<noteq> NewData)"
  let ?t = "published this sample (word_of_int (level + 1))"
  from a have "\<forall>rd \<in> set rds. fst rd \<noteq> NewData" by simp
  from cycles_no_data [OF this, of ?t] obtain this' where
    c: "cycles ?t rds = Some this'" and
    p: "port_singularity_scaling this' =
       port_singularity_scaling ?t @ replicate (length rds) (singularity_scaling ?t)"
    by blast
  have "cycles this ((NewData, sample) # rds) = Some this'"
    using a c by (simp add: updateHook_new)
  moreover have "port_singularity_scaling this' =
           port_singularity_scaling this @
             replicate (Suc (length rds)) (word_of_int (level + 1))"
    using p by (simp add: published_def)
  ultimately show "\<exists>this'. cycles this ((NewData, sample) # rds) = Some this' \<and>
         port_singularity_scaling this' =
           port_singularity_scaling this @
             replicate (Suc (length rds)) (word_of_int (level + 1))"
    by blast
qed

theorem C4_evaluation_cycle_witness:
  "configured 2 example_detector \<and> length [Fin (3/8), Fin 5] = 2 \<and>
   sample_level example_detector [Fin (3/8), Fin 5] = Some 2 \<and>
   updateHook example_detector (NewData, [Fin (3/8), Fin 5]) =
     Some (published example_detector [Fin (3/8), Fin 5] 3) \<and>
   updateHook example_detector (OldData, [Fin 5, Fin 5]) =
     Some (published example_detector [Fin 5, Fin 5] 1) \<and>
   map_option port_singularity_scaling
     (cycles example_detector
        [(NewData, [Fin (3/8), Fin 5]), (NoData, [Fin (3/8), Fin 5]),
         (NoData, [Fin (3/8), Fin 5]), (OldData, [Fin (3/8), Fin 5]),
         (NoData, [Fin (3/8), Fin 5]), (NoData, [Fin (3/8), Fin 5])]) =
     Some [3, 3, 3, 3, 3, 3]"
proof -
  have l: "sample_level example_detector [Fin (3/8), Fin 5] = Some 2"
    by (simp add: sample_level_def example_detector_def checkSingularityLevel_def
        joint_iteration_def inside_def elem_def dgt_def)
  have c: "configured 2 example_detector"
    by (simp add: configured_def example_detector_def)
  have s: "singularity_scaling example_detector = 1" "port_singularity_scaling example_detector = []"
    by (simp_all add: example_detector_def)
  from l c s
    C4_evaluation_cycle [of 2 example_detector "[Fin (3/8), Fin 5]" 2 OldData "[Fin 5, Fin 5]"
      "[(NoData, [Fin (3/8), Fin 5]), (NoData, [Fin (3/8), Fin 5]),
        (OldData, [Fin (3/8), Fin 5]), (NoData, [Fin (3/8), Fin 5]),
        (NoData, [Fin (3/8), Fin 5])]"]
  show ?thesis by auto
qed

lemma dlt_dle_trans: "dlt a b \<Longrightarrow> dle b c \<Longrightarrow> dlt a c"
  by (cases a; cases b; cases c) (simp_all add: dle_def)

lemma dle_dlt_trans: "dle a b \<Longrightarrow> dlt b c \<Longrightarrow> dlt a c"
  by (cases a; cases b; cases c) (simp_all add: dle_def)

lemma band_kept_below:
  assumes "dlt l x" "dlt x u" "dle x y" "dle y c" "dlt c u3" "dle u3 u"
  shows "dlt l y \<and> dlt y u"
  using assms by (meson dlt_dle_trans dle_dlt_trans)

lemma band_kept_above:
  assumes "dlt l x" "dlt x u" "dle y x" "dle c y" "dlt l3 c" "dle l l3"
  shows "dlt l y \<and> dlt y u"
  using assms by (meson dlt_dle_trans dle_dlt_trans)

lemma dle_trans: "dle a b \<Longrightarrow> dle b c \<Longrightarrow> dle a c"
  by (cases a; cases b; cases c) (simp_all add: dle_def)

lemma dlt_dle_refl: "dlt a b \<Longrightarrow> dle b b \<and> dle a a"
  by (cases a; cases b) (simp_all add: dle_def)

lemma level_toward:
  assumes nest: "dle l1 l2" "dle l2 l3" "dle u3 u2" "dle u2 u1"
    and c: "dlt l3 c" "dlt c u3"
    and btw: "between x y c"
  shows "(dlt l3 x \<and> dlt x u3 \<longrightarrow> dlt l3 y \<and> dlt y u3) \<and>
         (dlt l2 x \<and> dlt x u2 \<longrightarrow> dlt l2 y \<and> dlt y u2) \<and>
         (dlt l1 x \<and> dlt x u1 \<longrightarrow> dlt l1 y \<and> dlt y u1)"
proof -
  have r: "dle u3 u3" "dle l3 l3" using c dlt_dle_refl by blast+
  have u31: "dle u3 u1" using nest dle_trans by blast
  have l13: "dle l1 l3" using nest dle_trans by blast
  from btw show ?thesis
    unfolding between_def
  proof
    assume b: "dle x y \<and> dle y c"
    show ?thesis
      using b c r u31 nest band_kept_below by blast
  next
    assume b: "dle c y \<and> dle y x"
    show ?thesis
      using b c r l13 nest band_kept_above by blast
  qed
qed

lemma local_level_toward:
  assumes "i < length pos"
    and "nested_bands l1l l1u l2l l2u l3l l3u i"
    and "dlt (l3l ! i) c" "dlt c (l3u ! i)"
    and "between x y c"
  shows "local_level (pos[i := x]) l1l l1u l2l l2u l3l l3u i \<le>
         local_level (pos[i := y]) l1l l1u l2l l2u l3l l3u i"
  using assms(1)
    level_toward [of "l1l ! i" "l2l ! i" "l3l ! i" "l3u ! i" "l2u ! i" "l1u ! i" c x y]
    assms(2-5)
  by (simp add: local_level_def nested_bands_def)

lemma local_level_other:
  "j \<noteq> i \<Longrightarrow> local_level (pos[i := x]) l1l l1u l2l l2u l3l l3u j =
     local_level pos l1l l1u l2l l2u l3l l3u j"
  by (simp add: local_level_def)

lemma classifier_single:
  assumes lm: "length_matched n pos l1l l1u l2l l2u l3l l3u"
    and nj: "sint (number_of_joints this) = int n"
    and i: "i < n"
    and oth: "others_outside n i pos l1l l1u l2l l2u l3l l3u"
  shows "checkSingularityLevel this p (pos[i := x]) l1l l1u l2l l2u l3l l3u =
     Some (local_level (pos[i := x]) l1l l1u l2l l2u l3l l3u i)"
proof -
  let ?f = "local_level (pos[i := x]) l1l l1u l2l l2u l3l l3u"
  have lm': "length_matched n (pos[i := x]) l1l l1u l2l l2u l3l l3u"
    using lm by (simp add: length_matched_def)
  have "Max (?f ` {0..<n}) = ?f i"
  proof (rule Max_eqI)
    show "finite (?f ` {0..<n})" by simp
    show "?f i \<in> ?f ` {0..<n}" using i by simp
    fix v assume "v \<in> ?f ` {0..<n}"
    then obtain j where j: "j < n" "v = ?f j" by auto
    show "v \<le> ?f i"
    proof (cases "j = i")
      case True
      with j show ?thesis by simp
    next
      case False
      then have "?f j = 0"
        using oth j by (simp add: others_outside_def local_level_other)
      then show ?thesis using j local_level_bounds(1) [of "pos[i := x]" l1l l1u l2l l2u l3l l3u i]
        by simp
    qed
  qed
  moreover have "0 < n" using i by simp
  ultimately show ?thesis
    using classifier_fold [OF lm' nj, of p] by (simp add: reference_classify_Max)
qed

lemma inside_boundary:
  assumes "i < length pos" "i < length lower" "i < length upper"
    and "pos ! i = lower ! i \<or> pos ! i = upper ! i"
  shows "inside pos lower upper i = Some False"
  using assms by (auto simp: inside_in_range dlt_irrefl)

lemma joint_iteration_Break:
  "joint_iteration pos l1l l1u l2l l2u l3l l3u i = Some Break \<Longrightarrow>
   inside pos l3l l3u i = Some True"
  by (simp add: joint_iteration_def split: option.splits bool.splits)

lemma joint_iteration_Temp2:
  "joint_iteration pos l1l l1u l2l l2u l3l l3u i = Some (Temp 2) \<Longrightarrow>
   inside pos l2l l2u i = Some True"
  by (simp add: joint_iteration_def split: option.splits bool.splits)

lemma joint_iteration_Temp1:
  "joint_iteration pos l1l l1u l2l l2u l3l l3u i = Some (Temp 1) \<Longrightarrow>
   inside pos l1l l1u i = Some True"
  by (simp add: joint_iteration_def split: option.splits bool.splits)

section \<open>Boundaries, hidden state and monotonicity\<close>

text \<open>
  Claim C5. Every band test is strict on both sides: when the position of joint \<open>i\<close>
  equals the lower or the upper limit of a band, the test of that band is false, and the
  iteration for joint \<open>i\<close> does not end with the level of that band (no \<open>break\<close> for band
  3, no \<open>temp = 2\<close> for band 2, no \<open>temp = 1\<close> for band 1): the joint falls to what the
  other bands give.
\<close>

theorem C5_boundaries_are_outside:
  assumes "i < length pos" "i < length l1l" "i < length l1u" "i < length l2l" "i < length l2u"
    "i < length l3l" "i < length l3u"
  shows "(pos ! i = l3l ! i \<or> pos ! i = l3u ! i \<longrightarrow>
            inside pos l3l l3u i = Some False \<and>
            joint_iteration pos l1l l1u l2l l2u l3l l3u i \<noteq> Some Break) \<and>
         (pos ! i = l2l ! i \<or> pos ! i = l2u ! i \<longrightarrow>
            inside pos l2l l2u i = Some False \<and>
            joint_iteration pos l1l l1u l2l l2u l3l l3u i \<noteq> Some (Temp 2)) \<and>
         (pos ! i = l1l ! i \<or> pos ! i = l1u ! i \<longrightarrow>
            inside pos l1l l1u i = Some False \<and>
            joint_iteration pos l1l l1u l2l l2u l3l l3u i \<noteq> Some (Temp 1))"
proof (intro conjI impI)
  assume b: "pos ! i = l3l ! i \<or> pos ! i = l3u ! i"
  show f: "inside pos l3l l3u i = Some False"
    using assms b by (intro inside_boundary) simp_all
  show "joint_iteration pos l1l l1u l2l l2u l3l l3u i \<noteq> Some Break"
    using f joint_iteration_Break [of pos l1l l1u l2l l2u l3l l3u i] by auto
next
  assume b: "pos ! i = l2l ! i \<or> pos ! i = l2u ! i"
  show f: "inside pos l2l l2u i = Some False"
    using assms b by (intro inside_boundary) simp_all
  show "joint_iteration pos l1l l1u l2l l2u l3l l3u i \<noteq> Some (Temp 2)"
    using f joint_iteration_Temp2 [of pos l1l l1u l2l l2u l3l l3u i] by auto
next
  assume b: "pos ! i = l1l ! i \<or> pos ! i = l1u ! i"
  show f: "inside pos l1l l1u i = Some False"
    using assms b by (intro inside_boundary) simp_all
  show "joint_iteration pos l1l l1u l2l l2u l3l l3u i \<noteq> Some (Temp 1)"
    using f joint_iteration_Temp1 [of pos l1l l1u l2l l2u l3l l3u i] by auto
qed

text \<open>
  On the upper limit of band 3, on the lower limit of band 2 and on the upper limit of
  band 1 of joint 0 of the example detector, the levels are 2, 1 and 0.
\<close>

theorem C5_boundaries_are_outside_witness:
  "[Fin (1/4), Fin 5] ! 0 = l3_upper example_detector ! 0 \<and>
   inside [Fin (1/4), Fin 5] (l3_lower example_detector) (l3_upper example_detector) 0
     = Some False \<and>
   checkSingularityLevel example_detector 2 [Fin (1/4), Fin 5]
     (l1_lower example_detector) (l1_upper example_detector)
     (l2_lower example_detector) (l2_upper example_detector)
     (l3_lower example_detector) (l3_upper example_detector) = Some 2 \<and>
   [Fin (- 1/2), Fin 5] ! 0 = l2_lower example_detector ! 0 \<and>
   inside [Fin (- 1/2), Fin 5] (l2_lower example_detector) (l2_upper example_detector) 0
     = Some False \<and>
   checkSingularityLevel example_detector 2 [Fin (- 1/2), Fin 5]
     (l1_lower example_detector) (l1_upper example_detector)
     (l2_lower example_detector) (l2_upper example_detector)
     (l3_lower example_detector) (l3_upper example_detector) = Some 1 \<and>
   [Fin 1, Fin 5] ! 0 = l1_upper example_detector ! 0 \<and>
   inside [Fin 1, Fin 5] (l1_lower example_detector) (l1_upper example_detector) 0
     = Some False \<and>
   checkSingularityLevel example_detector 2 [Fin 1, Fin 5]
     (l1_lower example_detector) (l1_upper example_detector)
     (l2_lower example_detector) (l2_upper example_detector)
     (l3_lower example_detector) (l3_upper example_detector) = Some 0"
proof -
  have lv: "checkSingularityLevel example_detector 2 [Fin (1/4), Fin 5]
     (l1_lower example_detector) (l1_upper example_detector)
     (l2_lower example_detector) (l2_upper example_detector)
     (l3_lower example_detector) (l3_upper example_detector) = Some 2"
    "checkSingularityLevel example_detector 2 [Fin (- 1/2), Fin 5]
     (l1_lower example_detector) (l1_upper example_detector)
     (l2_lower example_detector) (l2_upper example_detector)
     (l3_lower example_detector) (l3_upper example_detector) = Some 1"
    "checkSingularityLevel example_detector 2 [Fin 1, Fin 5]
     (l1_lower example_detector) (l1_upper example_detector)
     (l2_lower example_detector) (l2_upper example_detector)
     (l3_lower example_detector) (l3_upper example_detector) = Some 0"
    by (simp_all add: example_detector_def checkSingularityLevel_def joint_iteration_def
        inside_def elem_def dgt_def)
  have b3: "inside [Fin (1/4), Fin 5] (l3_lower example_detector) (l3_upper example_detector) 0
     = Some False"
    using C5_boundaries_are_outside [of 0 "[Fin (1/4), Fin 5]"
     "l1_lower example_detector" "l1_upper example_detector"
     "l2_lower example_detector" "l2_upper example_detector"
     "l3_lower example_detector" "l3_upper example_detector"]
    by (simp add: example_detector_def)
  have b2: "inside [Fin (- 1/2), Fin 5] (l2_lower example_detector) (l2_upper example_detector) 0
     = Some False"
    using C5_boundaries_are_outside [of 0 "[Fin (- 1/2), Fin 5]"
     "l1_lower example_detector" "l1_upper example_detector"
     "l2_lower example_detector" "l2_upper example_detector"
     "l3_lower example_detector" "l3_upper example_detector"]
    by (simp add: example_detector_def)
  have b1: "inside [Fin 1, Fin 5] (l1_lower example_detector) (l1_upper example_detector) 0
     = Some False"
    using C5_boundaries_are_outside [of 0 "[Fin 1, Fin 5]"
     "l1_lower example_detector" "l1_upper example_detector"
     "l2_lower example_detector" "l2_upper example_detector"
     "l3_lower example_detector" "l3_upper example_detector"]
    by (simp add: example_detector_def)
  have eq: "[Fin (1/4), Fin 5] ! 0 = l3_upper example_detector ! 0"
    "[Fin (- 1/2), Fin 5] ! 0 = l2_lower example_detector ! 0"
    "[Fin 1, Fin 5] ! 0 = l1_upper example_detector ! 0"
    by (simp_all add: example_detector_def)
  show ?thesis
    by (intro conjI lv b1 b2 b3 eq)
qed

text \<open>
  Claim C7 says that the level is a function of the explicit inputs alone. The program
  reads the member \<open>number_of_joints\<close> for the bound of its loop: the same call, with the
  same joint count argument, position and limits, returns 0 on a detector whose member
  is 1 and 3 on a detector whose member is 2.
\<close>

theorem C7_level_depends_on_member:
  "checkSingularityLevel single_joint_detector 2 [Fin 5, Fin 0]
     (l1_lower example_detector) (l1_upper example_detector)
     (l2_lower example_detector) (l2_upper example_detector)
     (l3_lower example_detector) (l3_upper example_detector) = Some 0 \<and>
   checkSingularityLevel example_detector 2 [Fin 5, Fin 0]
     (l1_lower example_detector) (l1_upper example_detector)
     (l2_lower example_detector) (l2_upper example_detector)
     (l3_lower example_detector) (l3_upper example_detector) = Some 3"
  by (simp add: example_detector_def single_joint_detector_def checkSingularityLevel_def
      joint_iteration_def inside_def elem_def dgt_def)

text \<open>
  Claim C8, as the specification states it, for any configured bands. With one joint
  and band 1 \<open>(0, 1)\<close> apart from band 3 \<open>(4, 6)\<close>, the position moves from \<open>-1\<close>, outside all
  bands, through \<open>1/2\<close> and \<open>2\<close> toward the centre 5 of band 3, and the level goes 0, 1, 0:
  it falls on the way in.
\<close>

theorem C8_monotone_for_nested_bands_counterexample:
  "checkSingularityLevel single_joint_detector 1 [Fin (- 1)]
     (l1_lower single_joint_detector) (l1_upper single_joint_detector)
     (l2_lower single_joint_detector) (l2_upper single_joint_detector)
     (l3_lower single_joint_detector) (l3_upper single_joint_detector) = Some 0 \<and>
   checkSingularityLevel single_joint_detector 1 [Fin (1/2)]
     (l1_lower single_joint_detector) (l1_upper single_joint_detector)
     (l2_lower single_joint_detector) (l2_upper single_joint_detector)
     (l3_lower single_joint_detector) (l3_upper single_joint_detector) = Some 1 \<and>
   checkSingularityLevel single_joint_detector 1 [Fin 2]
     (l1_lower single_joint_detector) (l1_upper single_joint_detector)
     (l2_lower single_joint_detector) (l2_upper single_joint_detector)
     (l3_lower single_joint_detector) (l3_upper single_joint_detector) = Some 0 \<and>
   dlt (Fin (- 1)) (Fin (1/2)) \<and> dlt (Fin (1/2)) (Fin 2) \<and> dlt (Fin 2) (Fin 5) \<and>
   dlt (l3_lower single_joint_detector ! 0) (Fin 5) \<and>
   dlt (Fin 5) (l3_upper single_joint_detector ! 0)"
  by (simp add: single_joint_detector_def checkSingularityLevel_def joint_iteration_def
      inside_def elem_def dgt_def)

text \<open>
  Claim C8, amended. On length-matched input with every other joint outside all of its
  bands, and with the bands of joint \<open>i\<close> nested (band 3 within band 2 within band 1),
  a move of the position of joint \<open>i\<close> from \<open>x\<close> to a \<open>y\<close> between \<open>x\<close> and a point \<open>c\<close>
  inside band 3 (its centre, for one) does not lower the level; read from \<open>y\<close> to \<open>x\<close>,
  a move away from \<open>c\<close> does not raise it.
\<close>

theorem C8_monotone_for_nested_bands:
  assumes "length_matched n pos l1l l1u l2l l2u l3l l3u"
    and "sint (number_of_joints this) = int n"
    and "i < n"
    and "others_outside n i pos l1l l1u l2l l2u l3l l3u"
    and "nested_bands l1l l1u l2l l2u l3l l3u i"
    and "dlt (l3l ! i) c" and "dlt c (l3u ! i)"
    and "between x y c"
  shows "\<exists>a b. checkSingularityLevel this p (pos[i := x]) l1l l1u l2l l2u l3l l3u = Some a \<and>
               checkSingularityLevel this p (pos[i := y]) l1l l1u l2l l2u l3l l3u = Some b \<and>
               a \<le> b"
proof -
  have "i < length pos" using assms(1,3) by (simp add: length_matched_def)
  from local_level_toward [OF this assms(5-8)]
  show ?thesis
    by (simp add: classifier_single [OF assms(1-4)])
qed

text \<open>
  Joint 0 of the example detector moves from \<open>3/4\<close> to \<open>3/8\<close>, toward the centre 0 of its
  band 3, while joint 1 stays at 5: the level goes from 1 to 2.
\<close>

theorem C8_monotone_for_nested_bands_witness:
  "length_matched 2 [Fin 5, Fin 5] (l1_lower example_detector) (l1_upper example_detector)
     (l2_lower example_detector) (l2_upper example_detector)
     (l3_lower example_detector) (l3_upper example_detector) \<and>
   sint (number_of_joints example_detector) = int 2 \<and> (0::nat) < 2 \<and>
   others_outside 2 0 [Fin 5, Fin 5] (l1_lower example_detector) (l1_upper example_detector)
     (l2_lower example_detector) (l2_upper example_detector)
     (l3_lower example_detector) (l3_upper example_detector) \<and>
   nested_bands (l1_lower example_detector) (l1_upper example_detector)
     (l2_lower example_detector) (l2_upper example_detector)
     (l3_lower example_detector) (l3_upper example_detector) 0 \<and>
   dlt (l3_lower example_detector ! 0) (Fin 0) \<and> dlt (Fin 0) (l3_upper example_detector ! 0) \<and>
   between (Fin (3/4)) (Fin (3/8)) (Fin 0) \<and>
   checkSingularityLevel example_detector 2 ([Fin 5, Fin 5][0 := Fin (3/4)])
     (l1_lower example_detector) (l1_upper example_detector)
     (l2_lower example_detector) (l2_upper example_detector)
     (l3_lower example_detector) (l3_upper example_detector) = Some 1 \<and>
   checkSingularityLevel example_detector 2 ([Fin 5, Fin 5][0 := Fin (3/8)])
     (l1_lower example_detector) (l1_upper example_detector)
     (l2_lower example_detector) (l2_upper example_detector)
     (l3_lower example_detector) (l3_upper example_detector) = Some 2"
proof -
  have h: "length_matched 2 [Fin 5, Fin 5] (l1_lower example_detector) (l1_upper example_detector)
     (l2_lower example_detector) (l2_upper example_detector)
     (l3_lower example_detector) (l3_upper example_detector)"
    "sint (number_of_joints example_detector) = int 2"
    "others_outside 2 0 [Fin 5, Fin 5] (l1_lower example_detector) (l1_upper example_detector)
     (l2_lower example_detector) (l2_upper example_detector)
     (l3_lower example_detector) (l3_upper example_detector)"
    "nested_bands (l1_lower example_detector) (l1_upper example_detector)
     (l2_lower example_detector) (l2_upper example_detector)
     (l3_lower example_detector) (l3_upper example_detector) 0"
    "dlt (l3_lower example_detector ! 0) (Fin 0)" "dlt (Fin 0) (l3_upper example_detector ! 0)"
    "between (Fin (3/4)) (Fin (3/8)) (Fin 0)"
    by (simp_all add: example_detector_def length_matched_def others_outside_def
        local_level_def nested_bands_def between_def dle_def atLeastLessThan_def)
  have lv: "checkSingularityLevel example_detector 2 ([Fin 5, Fin 5][0 := Fin (3/4)])
     (l1_lower example_detector) (l1_upper example_detector)
     (l2_lower example_detector) (l2_upper example_detector)
     (l3_lower example_detector) (l3_upper example_detector) = Some 1"
    "checkSingularityLevel example_detector 2 ([Fin 5, Fin 5][0 := Fin (3/8)])
     (l1_lower example_detector) (l1_upper example_detector)
     (l2_lower example_detector) (l2_upper example_detector)
     (l3_lower example_detector) (l3_upper example_detector) = Some 2"
    by (simp_all add: example_detector_def checkSingularityLevel_def joint_iteration_def
        inside_def elem_def dgt_def)
  from h lv
    C8_monotone_for_nested_bands [of 2 "[Fin 5, Fin 5]"
     "l1_lower example_detector" "l1_upper example_detector"
     "l2_lower example_detector" "l2_upper example_detector"
     "l3_lower example_detector" "l3_upper example_detector" example_detector 0 "Fin 0"
      "Fin (3/4)" "Fin (3/8)" 2]
  show ?thesis by simp
qed

end
